theory Spec2Isabelle
  imports Complex_Main
begin

section \<open>Data model\<close>

text \<open>
  The TypeScript type \<open>number\<close> is modelled by \<open>real\<close>; the infinities and the NaN of
  IEEE doubles are outside the model. The clamp of the server and the bounds of a label
  are computed with exact arithmetic. The preview scale, the pointer handlers and
  \<open>drawPreview\<close> of the client round the result of every operation to the nearest double,
  as the code does. Pixel sizes of decoded images are natural numbers.
\<close>

text \<open>\<open>interface LabelConfig\<close> (the server's \<open>./types\<close> and \<open>client/app.ts\<close>).\<close>

record LabelConfig =
  "text" :: string
  x :: real
  y :: real
  fontSize :: real
  color :: string
  backgroundColor :: string
  backgroundOpacity :: real
  padding :: real

text \<open>\<open>interface LabelBounds\<close>; the field \<open>top\<close> is written \<open>top_edge\<close>.\<close>

record LabelBounds =
  left :: real
  top_edge :: real
  right :: real
  bottom :: real

text \<open>
  A CSS font string such as \<open>bold 20px sans-serif\<close>, kept in its three parts: whether it
  starts with \<open>bold\<close>, the number before \<open>px\<close>, and the family.
\<close>

datatype Font = Font (bold: bool) (px: real) (family: string)

text \<open>What \<open>ctx.measureText(text)\<close> returns, as far as the code reads it.\<close>

record TextMetrics =
  width :: real
  actualBoundingBoxAscent :: real
  actualBoundingBoxDescent :: real

text \<open>
  The text measurement of the canvas is a collaborator: a function of the context's current
  font and baseline and of the text.
\<close>

type_synonym measure = "Font \<Rightarrow> string \<Rightarrow> string \<Rightarrow> TextMetrics"

text \<open>A decoded image on the server (\<open>loadImage\<close>) and an image element in the browser.\<close>

record Image =
  imgWidth :: nat
  imgHeight :: nat
  imgData :: "nat list"

record HTMLImageElement =
  naturalWidth :: nat
  naturalHeight :: nat
  src :: string

section \<open>The 2D drawing context\<close>

text \<open>
  A context is its current drawing state, the stack of states pushed by \<open>save()\<close>, and the
  drawing calls made so far, in order. Each recorded call carries the state it was drawn
  with: fill style and global alpha, and for text also font, baseline and alignment.
\<close>

record DrawState =
  font :: Font
  textBaseline :: string
  textAlign :: string
  fillStyle :: string
  globalAlpha :: real

datatype drawop =
    DrawImage Image real real
  | DrawImageScaled HTMLImageElement real real real real
  | FillRect string real real real real real
  | FillText string real Font string string string real real

record Ctx =
  cur :: DrawState
  saved :: "DrawState list"
  ops :: "drawop list"

text \<open>The state of a context fresh from \<open>createCanvas\<close>, or reset by resizing its canvas.\<close>

definition defaultState :: DrawState where
  "defaultState =
     \<lparr>font = Font False 10 ''sans-serif'', textBaseline = ''alphabetic'',
      textAlign = ''start'', fillStyle = ''#000000'', globalAlpha = 1\<rparr>"

definition freshCtx :: Ctx where
  "freshCtx = \<lparr>cur = defaultState, saved = [], ops = []\<rparr>"

definition save :: "Ctx \<Rightarrow> Ctx" where
  "save c = c\<lparr>saved := cur c # saved c\<rparr>"

definition restore :: "Ctx \<Rightarrow> Ctx" where
  "restore c = (case saved c of [] \<Rightarrow> c | s # ss \<Rightarrow> c\<lparr>cur := s, saved := ss\<rparr>)"

definition setFont :: "Font \<Rightarrow> Ctx \<Rightarrow> Ctx" where
  "setFont f c = c\<lparr>cur := (cur c)\<lparr>font := f\<rparr>\<rparr>"

definition setTextBaseline :: "string \<Rightarrow> Ctx \<Rightarrow> Ctx" where
  "setTextBaseline b c = c\<lparr>cur := (cur c)\<lparr>textBaseline := b\<rparr>\<rparr>"

definition setTextAlign :: "string \<Rightarrow> Ctx \<Rightarrow> Ctx" where
  "setTextAlign a c = c\<lparr>cur := (cur c)\<lparr>textAlign := a\<rparr>\<rparr>"

definition setFillStyle :: "string \<Rightarrow> Ctx \<Rightarrow> Ctx" where
  "setFillStyle s c = c\<lparr>cur := (cur c)\<lparr>fillStyle := s\<rparr>\<rparr>"

definition setGlobalAlpha :: "real \<Rightarrow> Ctx \<Rightarrow> Ctx" where
  "setGlobalAlpha a c = c\<lparr>cur := (cur c)\<lparr>globalAlpha := a\<rparr>\<rparr>"

definition measureText :: "measure \<Rightarrow> Ctx \<Rightarrow> string \<Rightarrow> TextMetrics" where
  "measureText m c t = m (font (cur c)) (textBaseline (cur c)) t"

definition fillRect :: "real \<Rightarrow> real \<Rightarrow> real \<Rightarrow> real \<Rightarrow> Ctx \<Rightarrow> Ctx" where
  "fillRect rx ry rw rh c =
     c\<lparr>ops := ops c @ [FillRect (fillStyle (cur c)) (globalAlpha (cur c)) rx ry rw rh]\<rparr>"

definition fillText :: "string \<Rightarrow> real \<Rightarrow> real \<Rightarrow> Ctx \<Rightarrow> Ctx" where
  "fillText t tx ty c =
     c\<lparr>ops := ops c @ [FillText (fillStyle (cur c)) (globalAlpha (cur c)) (font (cur c))
                          (textBaseline (cur c)) (textAlign (cur c)) t tx ty]\<rparr>"

definition drawImage :: "Image \<Rightarrow> real \<Rightarrow> real \<Rightarrow> Ctx \<Rightarrow> Ctx" where
  "drawImage i dx dy c = c\<lparr>ops := ops c @ [DrawImage i dx dy]\<rparr>"

definition drawImageScaled :: "HTMLImageElement \<Rightarrow> real \<Rightarrow> real \<Rightarrow> real \<Rightarrow> real \<Rightarrow> Ctx \<Rightarrow> Ctx" where
  "drawImageScaled i dx dy dw dh c = c\<lparr>ops := ops c @ [DrawImageScaled i dx dy dw dh]\<rparr>"

section \<open>The server: \<open>drawLabel\<close>\<close>

text \<open>
  The local constants of \<open>drawLabel\<close>. The font is set to
  \<open>bold ${fontSize}px sans-serif\<close> and the baseline to \<open>top\<close> before the text is measured;
  the text height is the font size.
\<close>

definition labelFont :: "LabelConfig \<Rightarrow> Font" where
  "labelFont label = Font True (fontSize label) ''sans-serif''"

definition textWidth :: "measure \<Rightarrow> LabelConfig \<Rightarrow> real" where
  "textWidth m label = width (m (labelFont label) ''top'' (text label))"

definition textHeight :: "LabelConfig \<Rightarrow> real" where
  "textHeight label = fontSize label"

definition clampedX :: "measure \<Rightarrow> LabelConfig \<Rightarrow> real \<Rightarrow> real" where
  "clampedX m label canvasWidth =
     max 0 (min (x label) (canvasWidth - textWidth m label - padding label * 2))"

definition clampedY :: "LabelConfig \<Rightarrow> real \<Rightarrow> real" where
  "clampedY label canvasHeight =
     max 0 (min (y label) (canvasHeight - textHeight label - padding label * 2))"

definition drawLabel :: "measure \<Rightarrow> Ctx \<Rightarrow> LabelConfig \<Rightarrow> real \<Rightarrow> real \<Rightarrow> Ctx" where
  "drawLabel m ctx label canvasWidth canvasHeight =
     (let c1 = save ctx;
          c2 = setFont (Font True (fontSize label) ''sans-serif'') c1;
          c3 = setTextBaseline ''top'' c2;
          metrics = measureText m c3 (text label);
          tw = width metrics;
          th = fontSize label;
          cx = max 0 (min (x label) (canvasWidth - tw - padding label * 2));
          cy = max 0 (min (y label) (canvasHeight - th - padding label * 2));
          c4 = setFillStyle (backgroundColor label) c3;
          c5 = fillRect (cx - padding label) (cy - padding label)
                 (tw + padding label * 2) (th + padding label * 2) c4;
          c6 = setFillStyle (color label) c5;
          c7 = fillText (text label) cx cy c6
      in restore c7)"

section \<open>The server: the handler of \<open>POST /api/generate\<close>\<close>

text \<open>
  An uploaded file is represented by what \<open>loadImage\<close> makes of its buffer: \<open>None\<close> when
  \<open>loadImage\<close> throws. A label field of the body is represented by what
  \<open>JSON.parse(...) as LabelConfig\<close> makes of it: \<open>None\<close> when \<open>JSON.parse\<close> throws (also
  for a missing field). \<open>body_delay\<close> is the form field \<open>delay\<close> that \<open>generateGif\<close> of
  \<open>client/app.ts\<close> appends; the handler never reads it.
\<close>

datatype Upload = Upload (decoded: "Image option")

record Request =
  files_image1 :: "Upload option"
  files_image2 :: "Upload option"
  body_label1 :: "LabelConfig option"
  body_label2 :: "LabelConfig option"
  body_delay :: "real option"

text \<open>
  The encoder of \<open>gif-encoder-2\<close> is a collaborator known by its declaration only. It is
  modelled by what it has been told: its size, the delay and repeat count set (\<open>None\<close>
  until set), whether \<open>start\<close> and \<open>finish\<close> were called, and the frames added, in order.
\<close>

record GifEncoder =
  enc_width :: nat
  enc_height :: nat
  enc_delay :: "real option"
  enc_repeat :: "real option"
  enc_started :: bool
  enc_frames :: "drawop list list"
  enc_finished :: bool

definition newGifEncoder :: "nat \<Rightarrow> nat \<Rightarrow> GifEncoder" where
  "newGifEncoder w h =
     \<lparr>enc_width = w, enc_height = h, enc_delay = None, enc_repeat = None,
      enc_started = False, enc_frames = [], enc_finished = False\<rparr>"

definition setDelay :: "real \<Rightarrow> GifEncoder \<Rightarrow> GifEncoder" where
  "setDelay ms e = e\<lparr>enc_delay := Some ms\<rparr>"

definition setRepeat :: "real \<Rightarrow> GifEncoder \<Rightarrow> GifEncoder" where
  "setRepeat n e = e\<lparr>enc_repeat := Some n\<rparr>"

definition start :: "GifEncoder \<Rightarrow> GifEncoder" where
  "start e = e\<lparr>enc_started := True\<rparr>"

definition addFrame :: "drawop list \<Rightarrow> GifEncoder \<Rightarrow> GifEncoder" where
  "addFrame d e = e\<lparr>enc_frames := enc_frames e @ [d]\<rparr>"

definition finish :: "GifEncoder \<Rightarrow> GifEncoder" where
  "finish e = e\<lparr>enc_finished := True\<rparr>"

text \<open>
  The pixels of a canvas are determined by the drawing calls made on it, so
  \<open>ctx.getImageData(0, 0, width, height).data\<close> is represented by these calls.
\<close>

definition getImageData :: "real \<Rightarrow> real \<Rightarrow> real \<Rightarrow> real \<Rightarrow> Ctx \<Rightarrow> drawop list" where
  "getImageData sx sy sw sh c = ops c"

text \<open>
  A response is either a status with the body \<open>{error: message}\<close>, or the GIF: the three
  headers and the buffer \<open>encoder.out.getData()\<close>, represented by the encoder that holds it.
\<close>

datatype Response = Json nat string | Gif GifEncoder

text \<open>A natural number in a template literal: its decimal digits.\<close>

definition digitChar :: "nat \<Rightarrow> char" where
  "digitChar d = ''0123456789'' ! d"

fun showNat :: "nat \<Rightarrow> string" where
  "showNat n = (if n < 10 then [digitChar n] else showNat (n div 10) @ [digitChar (n mod 10)])"

declare showNat.simps [simp del]

definition mismatchMessage :: "Image \<Rightarrow> Image \<Rightarrow> string" where
  "mismatchMessage img1 img2 =
     ''Images must be the same size. Got '' @ showNat (imgWidth img1) @ ''x'' @
     showNat (imgHeight img1) @ '' and '' @ showNat (imgWidth img2) @ ''x'' @
     showNat (imgHeight img2)"

text \<open>
  The handler returns its response together with the contexts of the canvases it has
  created and drawn on, in order. An exception of \<open>loadImage\<close> is caught by the outer
  \<open>try\<close> and answered with status 500.
\<close>

definition generate :: "measure \<Rightarrow> Request \<Rightarrow> Response \<times> Ctx list" where
  "generate m req =
     (case files_image1 req of
        None \<Rightarrow> (Json 400 ''Both images are required'', [])
      | Some file1 \<Rightarrow>
     (case files_image2 req of
        None \<Rightarrow> (Json 400 ''Both images are required'', [])
      | Some file2 \<Rightarrow>
     (case body_label1 req of
        None \<Rightarrow> (Json 400 ''Invalid label configuration'', [])
      | Some label1 \<Rightarrow>
     (case body_label2 req of
        None \<Rightarrow> (Json 400 ''Invalid label configuration'', [])
      | Some label2 \<Rightarrow>
     (case decoded file1 of
        None \<Rightarrow> (Json 500 ''Failed to generate GIF'', [])
      | Some img1 \<Rightarrow>
     (case decoded file2 of
        None \<Rightarrow> (Json 500 ''Failed to generate GIF'', [])
      | Some img2 \<Rightarrow>
        if imgWidth img1 \<noteq> imgWidth img2 \<or> imgHeight img1 \<noteq> imgHeight img2
        then (Json 400 (mismatchMessage img1 img2), [])
        else
          (let w = imgWidth img1;
               h = imgHeight img1;
               ctx1 = drawLabel m (drawImage img1 0 0 freshCtx) label1 (real w) (real h);
               ctx2 = drawLabel m (drawImage img2 0 0 freshCtx) label2 (real w) (real h);
               e1 = newGifEncoder w h;
               e2 = setDelay 500 e1;
               e3 = setRepeat 0 e2;
               e4 = start e3;
               e5 = addFrame (getImageData 0 0 (real w) (real h) ctx1) e4;
               e6 = addFrame (getImageData 0 0 (real w) (real h) ctx2) e5;
               encoder = finish e6
           in (Gif encoder, [ctx1, ctx2]))))))))"

section \<open>Double arithmetic\<close>

text \<open>
  An operation on doubles returns the double nearest to its exact result, ties going to
  the even significand. \<open>exponent v\<close> is the binary exponent of \<open>v\<close>, kept within the
  range of doubles (from \<open>-1022\<close>, where the subnormal numbers start, to \<open>1023\<close>); the
  doubles near \<open>v\<close> are the multiples of \<open>2\<close> to the power \<open>exponent v - 52\<close>, and \<open>fl v\<close> is
  the nearest of them. A result beyond the largest double is \<open>Infinity\<close> in the code and
  outside the model.
\<close>

fun expUp :: "nat \<Rightarrow> real \<Rightarrow> int" where
  "expUp n v = (if n = 0 \<or> v < 2 then 0 else 1 + expUp (n - 1) (v / 2))"

fun expDown :: "nat \<Rightarrow> real \<Rightarrow> int" where
  "expDown n v = (if n = 0 \<or> 1 \<le> v then 0 else expDown (n - 1) (v * 2) - 1)"

declare expUp.simps [simp del]

declare expDown.simps [simp del]

definition exponent :: "real \<Rightarrow> int" where
  "exponent v = (if 1 \<le> \<bar>v\<bar> then expUp 1023 \<bar>v\<bar> else expDown 1022 \<bar>v\<bar>)"

definition roundHalfEven :: "real \<Rightarrow> int" where
  "roundHalfEven q =
     (let f = \<lfloor>q\<rfloor>;
          r = q - of_int f
      in if r < 1 / 2 then f else if 1 / 2 < r then f + 1 else if even f then f else f + 1)"

definition fl :: "real \<Rightarrow> real" where
  "fl v =
     (if v = 0 then 0
      else (let u = 2 powi (exponent v - 52)
            in of_int (roundHalfEven (v / u)) * u))"

text \<open>The operators \<open>+\<close>, \<open>-\<close>, \<open>*\<close> and \<open>/\<close> of the code, the last for a divisor other than 0.\<close>

definition add_js :: "real \<Rightarrow> real \<Rightarrow> real" where
  "add_js a b = fl (a + b)"

definition sub_js :: "real \<Rightarrow> real \<Rightarrow> real" where
  "sub_js a b = fl (a - b)"

definition mul_js :: "real \<Rightarrow> real \<Rightarrow> real" where
  "mul_js a b = fl (a * b)"

definition div_js :: "real \<Rightarrow> real \<Rightarrow> real" where
  "div_js a b = fl (a / b)"

section \<open>The client: geometry helpers\<close>

definition PREVIEW_MAX_WIDTH :: real where
  "PREVIEW_MAX_WIDTH = 560"

definition PREVIEW_MAX_HEIGHT :: real where
  "PREVIEW_MAX_HEIGHT = 420"

text \<open>
  \<open>getPreviewScale\<close> divides by the natural size of the image. In JavaScript a division of a
  positive number by 0 is \<open>Infinity\<close>, written \<open>None\<close> here, and \<open>Math.min\<close> of \<open>Infinity\<close> and
  a number is that number.
\<close>

definition divide_js :: "real \<Rightarrow> nat \<Rightarrow> real option" where
  "divide_js a n = (if n = 0 then None else Some (div_js a (real n)))"

definition min_js :: "real option \<Rightarrow> real \<Rightarrow> real" where
  "min_js a b = (case a of None \<Rightarrow> b | Some v \<Rightarrow> min v b)"

definition getPreviewScale :: "HTMLImageElement \<Rightarrow> real" where
  "getPreviewScale im =
     (let sx = divide_js PREVIEW_MAX_WIDTH (naturalWidth im);
          sy = divide_js PREVIEW_MAX_HEIGHT (naturalHeight im)
      in min_js sx (min_js sy 1))"

text \<open>
  \<open>getLabelBounds\<close> of \<open>client/app.ts\<close>, over exact arithmetic. It assigns the font
  \<open>${fontSize * scale}px 'OperatorMonoBold'\<close> and the baseline \<open>alphabetic\<close> to the context and
  measures with them; every drawing path assigns both again before it draws, so only the
  returned bounds are modelled.
\<close>

definition getLabelBounds :: "measure \<Rightarrow> LabelConfig \<Rightarrow> real \<Rightarrow> LabelBounds" where
  "getLabelBounds m label scale =
     (let mt = m (Font False (fontSize label * scale) ''OperatorMonoBold'') ''alphabetic''
                 (text label);
          tw = width mt;
          th = actualBoundingBoxAscent mt + actualBoundingBoxDescent mt;
          p = padding label * scale;
          lx = x label * scale;
          ly = y label * scale
      in \<lparr>left = lx - p, top_edge = ly - p, right = lx + tw + p, bottom = ly + th + p\<rparr>)"

text \<open>
  \<open>getLabelBounds\<close> of the other client (\<open>unnamed/part_002\<close>): the font is
  \<open>bold ${fontSize * scale}px sans-serif\<close>, the baseline is whatever the context holds
  (a parameter here), and the height is the scaled font size.
\<close>

definition getLabelBounds_part_002 ::
    "measure \<Rightarrow> string \<Rightarrow> LabelConfig \<Rightarrow> real \<Rightarrow> LabelBounds" where
  "getLabelBounds_part_002 m baseline label scale =
     (let tw = width (m (Font True (fontSize label * scale) ''sans-serif'') baseline
                        (text label));
          th = fontSize label * scale;
          p = padding label * scale;
          lx = x label * scale;
          ly = y label * scale
      in \<lparr>left = lx - p, top_edge = ly - p, right = lx + tw + p, bottom = ly + th + p\<rparr>)"

definition hitTest :: "real \<Rightarrow> real \<Rightarrow> LabelBounds \<Rightarrow> bool" where
  "hitTest mx my b = (mx \<ge> left b \<and> mx \<le> right b \<and> my \<ge> top_edge b \<and> my \<le> bottom b)"

section \<open>The client: \<open>drawPreview\<close>\<close>

text \<open>
  \<open>Math.round\<close> rounds a double to the nearest integer, halves upwards. Assigning \<open>canvas.width\<close> or
  \<open>canvas.height\<close> clears the canvas and resets its context. An assignment to
  \<open>globalAlpha\<close> outside \<open>[0, 1]\<close> is ignored by the canvas.
\<close>

definition round_js :: "real \<Rightarrow> real" where
  "round_js v = of_int \<lfloor>v + 1 / 2\<rfloor>"

definition assignGlobalAlpha :: "real \<Rightarrow> Ctx \<Rightarrow> Ctx" where
  "assignGlobalAlpha a c = (if 0 \<le> a \<and> a \<le> 1 then setGlobalAlpha a c else c)"

record Canvas =
  canvasWidth :: real
  canvasHeight :: real
  getContext :: Ctx

definition drawPreview :: "measure \<Rightarrow> HTMLImageElement option \<Rightarrow> LabelConfig \<Rightarrow> Canvas" where
  "drawPreview m maybeImg label =
     (case maybeImg of
        None \<Rightarrow>
          (let w = PREVIEW_MAX_WIDTH;
               h = round_js (mul_js PREVIEW_MAX_HEIGHT (fl (6 / 10)));
               c1 = setFillStyle ''#e8e8e8'' freshCtx;
               c2 = fillRect 0 0 w h c1;
               c3 = setFillStyle ''#aaa'' c2;
               c4 = setFont (Font False 15 ''sans-serif'') c3;
               c5 = setTextAlign ''center'' c4;
               c6 = setTextBaseline ''middle'' c5;
               c7 = fillText ''Click or drop an image here'' (div_js w 2) (div_js h 2) c6;
               c8 = setTextAlign ''left'' c7;
               c9 = setTextBaseline ''alphabetic'' c8
           in \<lparr>canvasWidth = w, canvasHeight = h, getContext = c9\<rparr>)
      | Some im \<Rightarrow>
          (let scale = getPreviewScale im;
               w = round_js (mul_js (real (naturalWidth im)) scale);
               h = round_js (mul_js (real (naturalHeight im)) scale);
               c1 = drawImageScaled im 0 0 w h freshCtx;
               p = mul_js (padding label) scale;
               c2 = save c1;
               c3 = setFont (Font False (mul_js (fontSize label) scale) ''OperatorMonoBold'') c2;
               c4 = setTextBaseline ''alphabetic'' c3;
               mt = measureText m c4 (text label);
               tw = width mt;
               ascent = actualBoundingBoxAscent mt;
               descent = actualBoundingBoxDescent mt;
               lx = mul_js (x label) scale;
               ly = mul_js (y label) scale;
               c5 = assignGlobalAlpha (backgroundOpacity label) c4;
               c6 = setFillStyle (backgroundColor label) c5;
               c7 = fillRect (sub_js lx p) (sub_js ly p) (add_js tw (mul_js p 2))
                      (add_js (add_js ascent descent) (mul_js p 2)) c6;
               c8 = assignGlobalAlpha 1 c7;
               c9 = setFillStyle (color label) c8;
               c10 = fillText (text label) lx (add_js ly ascent) c9
           in \<lparr>canvasWidth = w, canvasHeight = h, getContext = restore c10\<rparr>))"

section \<open>The client: state and pointer handlers of \<open>setupCanvas\<close>\<close>

datatype which = W1 | W2

text \<open>
  A \<open>File\<close> chosen in the browser is the upload the server receives, so \<open>file\<close> holds an
  \<open>Upload\<close>.
\<close>

record ImageState =
  "file" :: "Upload option"
  img :: "HTMLImageElement option"

record DragState =
  which :: which
  offsetX :: real
  offsetY :: real

record AppState =
  image1 :: ImageState
  image2 :: ImageState
  delay :: real
  label1 :: LabelConfig
  label2 :: LabelConfig
  drag :: "DragState option"

text \<open>The initial \<open>state\<close> object of \<open>client/app.ts\<close>.\<close>

definition initialState :: AppState where
  "initialState =
     \<lparr>image1 = \<lparr>file = None, img = None\<rparr>,
      image2 = \<lparr>file = None, img = None\<rparr>,
      delay = 1000,
      label1 = \<lparr>text = ''before'', x = 10, y = 10, fontSize = 90, color = ''#ffffff'',
                backgroundColor = ''#000000'', backgroundOpacity = 0, padding = 8\<rparr>,
      label2 = \<lparr>text = ''after'', x = 10, y = 10, fontSize = 90, color = ''#ffffff'',
                backgroundColor = ''#000000'', backgroundOpacity = 0, padding = 8\<rparr>,
      drag = None\<rparr>"

text \<open>
  The pointer position arrives as a mouse event and the bounding rectangle of the canvas.
  What a handler does outside \<open>state\<close> (the cursor, \<open>preventDefault\<close>, the position display,
  the redraw of a canvas) is returned as the list of these calls, in order.
\<close>

record MouseEvent =
  clientX :: real
  clientY :: real

record DOMRect =
  rect_left :: real
  rect_top :: real

datatype Effect =
    SetCursor which string
  | PreventDefault
  | UpdatePositionDisplay which
  | RedrawCanvas which

definition getImg :: "which \<Rightarrow> AppState \<Rightarrow> HTMLImageElement option" where
  "getImg w st = (if w = W1 then img (image1 st) else img (image2 st))"

definition getLabel :: "which \<Rightarrow> AppState \<Rightarrow> LabelConfig" where
  "getLabel w st = (if w = W1 then label1 st else label2 st)"

text \<open>
  The test \<open>state.drag?.which === which\<close>: the drag session, when there is one and it belongs
  to this canvas.
\<close>

definition activeDrag :: "which \<Rightarrow> AppState \<Rightarrow> DragState option" where
  "activeDrag w st =
     (case drag st of None \<Rightarrow> None | Some d \<Rightarrow> if which d = w then Some d else None)"


definition mousemove ::
    "measure \<Rightarrow> which \<Rightarrow> DOMRect \<Rightarrow> MouseEvent \<Rightarrow> AppState \<Rightarrow> AppState \<times> Effect list" where
  "mousemove m w rect e st =
     (case getImg w st of
        None \<Rightarrow> (st, [])
      | Some im \<Rightarrow>
          (let mx = sub_js (clientX e) (rect_left rect);
               my = sub_js (clientY e) (rect_top rect);
               scale = getPreviewScale im
           in case activeDrag w st of
                Some d \<Rightarrow>
                  (let newX = div_js (sub_js mx (offsetX d)) scale;
                       newY = div_js (sub_js my (offsetY d)) scale
                   in (st\<lparr>label1 := (label1 st)\<lparr>x := newX, y := newY\<rparr>,
                          label2 := (label2 st)\<lparr>x := newX, y := newY\<rparr>\<rparr>,
                       [UpdatePositionDisplay W1, UpdatePositionDisplay W2,
                        RedrawCanvas W1, RedrawCanvas W2]))
              | None \<Rightarrow>
                  (let bounds = getLabelBounds m (getLabel w st) scale
                   in (st, [SetCursor w (if hitTest mx my bounds then ''grab''
                                         else ''default'')]))))"

definition stopDrag :: "which \<Rightarrow> AppState \<Rightarrow> AppState \<times> Effect list" where
  "stopDrag w st =
     (case activeDrag w st of
        Some d \<Rightarrow> (st\<lparr>drag := None\<rparr>, [SetCursor w ''default''])
      | None \<Rightarrow> (st, []))"

section \<open>The client: the request built by \<open>generateGif\<close>\<close>


section \<open>The text measurement of the rendering surface\<close>

text \<open>
  Modelled from the spec: \<open>measureLabelFootprint(text, fontSize, fontFace)\<close>, the text
  measurement of the rendering surface. In the code it is \<open>measureText\<close> of the canvas,
  called with the font assigned to the context; its implementation is not under \<open>src/\<close>.
  The spec has it return the width, the ascent and the descent of the text at the font
  size and face, and a footprint of size zero for the empty text. Font size and face are
  the font \<open>f\<close>, \<open>b\<close> is the baseline of the context, and \<open>m\<close> is what the surface measures
  for a text that is not empty.
\<close>

definition measureLabelFootprint :: "measure \<Rightarrow> measure" where
  "measureLabelFootprint m f b t =
     (if t = []
      then \<lparr>width = 0, actualBoundingBoxAscent = 0, actualBoundingBoxDescent = 0\<rparr>
      else m f b t)"

section \<open>Reading results\<close>

text \<open>The rectangle covered by a \<open>fillRect\<close> call, and the rectangles filled on a context.\<close>

definition rectBounds :: "drawop \<Rightarrow> LabelBounds option" where
  "rectBounds d =
     (case d of
        FillRect s a rx ry rw rh \<Rightarrow>
          Some \<lparr>left = rx, top_edge = ry, right = rx + rw, bottom = ry + rh\<rparr>
      | _ \<Rightarrow> None)"

definition filledRects :: "Ctx \<Rightarrow> LabelBounds list" where
  "filledRects c = List.map_filter rectBounds (ops c)"



section \<open>Concrete inputs\<close>

text \<open>
  A text measurement that is linear in the font size: every character is 3/5 of the font
  size wide, the ascent is 4/5 and the descent 1/5 of it.
\<close>

definition demoMeasure :: measure where
  "demoMeasure f b t =
     \<lparr>width = px f * 3 / 5 * real (length t),
      actualBoundingBoxAscent = px f * 4 / 5,
      actualBoundingBoxDescent = px f / 5\<rparr>"

definition demoLabel :: "string \<Rightarrow> real \<Rightarrow> real \<Rightarrow> real \<Rightarrow> real \<Rightarrow> LabelConfig" where
  "demoLabel t lx ly fs p =
     \<lparr>text = t, x = lx, y = ly, fontSize = fs, color = ''#ffffff'',
      backgroundColor = ''#000000'', backgroundOpacity = 0, padding = p\<rparr>"

definition demoImage :: "nat \<Rightarrow> nat \<Rightarrow> Image" where
  "demoImage w h = \<lparr>imgWidth = w, imgHeight = h, imgData = []\<rparr>"

definition demoElement :: "nat \<Rightarrow> nat \<Rightarrow> HTMLImageElement" where
  "demoElement w h = \<lparr>naturalWidth = w, naturalHeight = h, src = []\<rparr>"

definition demoRequest :: "Image \<Rightarrow> Image \<Rightarrow> LabelConfig \<Rightarrow> LabelConfig \<Rightarrow> Request" where
  "demoRequest i1 i2 l1 l2 =
     \<lparr>files_image1 = Some (Upload (Some i1)), files_image2 = Some (Upload (Some i2)),
      body_label1 = Some l1, body_label2 = Some l2, body_delay = Some 1000\<rparr>"

text \<open>The initial state of the client after two images of 1000 by 1000 pixels were loaded.\<close>

definition demoState :: AppState where
  "demoState =
     initialState
       \<lparr>image1 := \<lparr>file = Some (Upload (Some (demoImage 1000 1000))),
                    img = Some (demoElement 1000 1000)\<rparr>,
        image2 := \<lparr>file = Some (Upload (Some (demoImage 1000 1000))),
                    img = Some (demoElement 1000 1000)\<rparr>\<rparr>"


section \<open>Properties of the double arithmetic\<close>

text \<open>The equations that evaluate \<open>fl\<close> and the four operators at given numbers.\<close>

lemmas fl_eval =
  fl_def exponent_def expUp.simps expDown.simps roundHalfEven_def Let_def
  add_js_def sub_js_def mul_js_def div_js_def







lemma getPreviewScale_le_1: "getPreviewScale im \<le> 1"
  by (simp add: getPreviewScale_def divide_js_def min_js_def Let_def min.coboundedI2)

text \<open>The scale of three images, and the doubles that are themselves.\<close>

lemma scale_1000:
  "getPreviewScale (demoElement 1000 1000) = 7566047373982433 / 18014398509481984"
  by (simp add: getPreviewScale_def divide_js_def min_js_def demoElement_def
      PREVIEW_MAX_WIDTH_def PREVIEW_MAX_HEIGHT_def fl_eval)

lemma scale_500_400: "getPreviewScale (demoElement 500 400) = 1"
  by (simp add: getPreviewScale_def divide_js_def min_js_def demoElement_def
      PREVIEW_MAX_WIDTH_def PREVIEW_MAX_HEIGHT_def fl_eval)

lemma scale_564_1504:
  "getPreviewScale (demoElement 564 1504) = 5030616605041511 / 18014398509481984"
  by (simp add: getPreviewScale_def divide_js_def min_js_def demoElement_def
      PREVIEW_MAX_WIDTH_def PREVIEW_MAX_HEIGHT_def fl_eval)

lemma fl_values:
  "fl 2 = 2" "fl 8 = 8" "fl 10 = 10" "fl 16 = 16" "fl 82 = 82" "fl 90 = 90" "fl 106 = 106"
  "fl 340 = 340" "fl 400 = 400" "fl 500 = 500"
  by (simp_all add: fl_eval)

section \<open>Properties of the server\<close>

subsection \<open>What \<open>drawLabel\<close> draws\<close>

text \<open>The two drawing calls of \<open>drawLabel\<close>, in terms of its local constants.\<close>

lemma drawLabel_ops:
  "ops (drawLabel m ctx label cw ch) =
     ops ctx @
     [FillRect (backgroundColor label) (globalAlpha (cur ctx))
        (clampedX m label cw - padding label) (clampedY label ch - padding label)
        (textWidth m label + padding label * 2) (textHeight label + padding label * 2),
      FillText (color label) (globalAlpha (cur ctx)) (labelFont label) ''top''
        (textAlign (cur ctx)) (text label) (clampedX m label cw) (clampedY label ch)]"
  by (simp add: drawLabel_def Let_def save_def restore_def setFont_def setTextBaseline_def
      setFillStyle_def measureText_def fillRect_def fillText_def clampedX_def clampedY_def
      textWidth_def textHeight_def labelFont_def)

text \<open>\<open>save\<close> and \<open>restore\<close> leave the drawing state of the context as it was.\<close>

lemma drawLabel_cur: "cur (drawLabel m ctx label cw ch) = cur ctx"
  by (simp add: drawLabel_def Let_def save_def restore_def setFont_def setTextBaseline_def
      setFillStyle_def measureText_def fillRect_def fillText_def)

lemma filledRects_drawLabel:
  "filledRects (drawLabel m freshCtx label cw ch) =
     [\<lparr>left = clampedX m label cw - padding label,
       top_edge = clampedY label ch - padding label,
       right = clampedX m label cw - padding label + (textWidth m label + padding label * 2),
       bottom = clampedY label ch - padding label + (textHeight label + padding label * 2)\<rparr>]"
  by (simp add: filledRects_def drawLabel_ops freshCtx_def List.map_filter_simps rectBounds_def)

text \<open>
  C1: the clamped text origin is \<open>max(0, min(x, canvasWidth - textWidth - padding * 2))\<close>
  and \<open>max(0, min(y, canvasHeight - textHeight - padding * 2))\<close>; where the upper bound of an
  axis is negative the clamped coordinate is exactly 0, and it is never negative. The text
  is drawn at this origin.
\<close>

theorem drawLabel_clamp:
  "clampedX m label cw = max 0 (min (x label) (cw - textWidth m label - padding label * 2))
   \<and> clampedY label ch = max 0 (min (y label) (ch - textHeight label - padding label * 2))
   \<and> (cw - textWidth m label - padding label * 2 < 0 \<longrightarrow> clampedX m label cw = 0)
   \<and> (ch - textHeight label - padding label * 2 < 0 \<longrightarrow> clampedY label ch = 0)
   \<and> 0 \<le> clampedX m label cw \<and> 0 \<le> clampedY label ch
   \<and> last (ops (drawLabel m ctx label cw ch)) =
       FillText (color label) (globalAlpha (cur ctx)) (labelFont label) ''top''
         (textAlign (cur ctx)) (text label) (clampedX m label cw) (clampedY label ch)"
  by (simp add: drawLabel_ops) (simp add: clampedX_def clampedY_def)

text \<open>
  A label of font size 60 and padding 25 at (95, 95) on a surface of 100 by 100: both axes
  are degenerate and the origin is (0, 0).
\<close>

theorem drawLabel_clamp_witness:
  "(100::real) - textWidth demoMeasure (demoLabel ''before'' 95 95 60 25)
       - padding (demoLabel ''before'' 95 95 60 25) * 2 < 0
   \<and> (100::real) - textHeight (demoLabel ''before'' 95 95 60 25)
       - padding (demoLabel ''before'' 95 95 60 25) * 2 < 0
   \<and> clampedX demoMeasure (demoLabel ''before'' 95 95 60 25) 100 = 0
   \<and> clampedY (demoLabel ''before'' 95 95 60 25) 100 = 0"
  using drawLabel_clamp [of demoMeasure "demoLabel ''before'' 95 95 60 25" 100 100 freshCtx]
  by (simp add: demoLabel_def demoMeasure_def textWidth_def textHeight_def labelFont_def)

text \<open>
  The filled rectangle starts \<open>padding\<close> before the clamped origin. Its near edges are
  bounded by \<open>- padding\<close> only; where the label and its padding fit the surface, its far
  edges stay \<open>padding\<close> short of the far edges of the surface.
\<close>

lemma drawLabel_rect_edges:
  assumes "filledRects (drawLabel m freshCtx label cw ch) = [b]"
  shows "- padding label \<le> left b \<and> - padding label \<le> top_edge b
       \<and> (0 \<le> cw - textWidth m label - padding label * 2 \<longrightarrow> right b \<le> cw - padding label)
       \<and> (0 \<le> ch - textHeight label - padding label * 2 \<longrightarrow> bottom b \<le> ch - padding label)"
  using assms
  by (auto simp: filledRects_drawLabel clampedX_def clampedY_def)

text \<open>
  C5: the bounds of the background rectangle lie within \<open>[0, surfaceW] \<times> [0, surfaceH]\<close>
  unless the label with its padding exceeds the surface. The code does not keep this: for
  the label \<open>before\<close> at (0, 0) with font size 20 and padding 4 on a surface of 100 by 100,
  where the label with its padding is 80 wide and 28 high and so fits, the rectangle filled
  starts at (-4, -4).
\<close>

theorem drawLabel_rect_leaves_surface:
  "textWidth demoMeasure (demoLabel ''before'' 0 0 20 4)
       + padding (demoLabel ''before'' 0 0 20 4) * 2 = 80
   \<and> textHeight (demoLabel ''before'' 0 0 20 4)
       + padding (demoLabel ''before'' 0 0 20 4) * 2 = 28
   \<and> filledRects (drawLabel demoMeasure freshCtx (demoLabel ''before'' 0 0 20 4) 100 100) =
       [\<lparr>left = - 4, top_edge = - 4, right = 76, bottom = 24\<rparr>]"
  by (simp add: filledRects_drawLabel clampedX_def clampedY_def textWidth_def textHeight_def
      demoLabel_def demoMeasure_def labelFont_def)

text \<open>
  C6: the background rectangle is filled at an alpha equal to \<open>backgroundOpacity\<close>, so that
  an opacity of 0 leaves only the text. \<open>drawPreview\<close> does so; \<open>drawLabel\<close> never reads the
  field. For the initial label of the client, whose opacity is 0, on an image of 500 by
  400, the preview fills the rectangle at alpha 0 and the server at alpha 1.
\<close>

theorem drawLabel_ignores_backgroundOpacity:
  "backgroundOpacity (label1 initialState) = 0
   \<and> ops (drawLabel demoMeasure (drawImage (demoImage 500 400) 0 0 freshCtx)
            (label1 initialState) 500 400) =
       [DrawImage (demoImage 500 400) 0 0,
        FillRect ''#000000'' 1 2 2 340 106,
        FillText ''#ffffff'' 1 (Font True 90 ''sans-serif'') ''top'' ''start''
          ''before'' 10 10]
   \<and> ops (getContext (drawPreview demoMeasure (Some (demoElement 500 400))
            (label1 initialState))) =
       [DrawImageScaled (demoElement 500 400) 0 0 500 400,
        FillRect ''#000000'' 0 2 2 340 106,
        FillText ''#ffffff'' 1 (Font False 90 ''OperatorMonoBold'') ''alphabetic'' ''start''
          ''before'' 10 82]"
proof (intro conjI)
  show "backgroundOpacity (label1 initialState) = 0"
    by (simp add: initialState_def)
  show "ops (drawLabel demoMeasure (drawImage (demoImage 500 400) 0 0 freshCtx)
            (label1 initialState) 500 400) =
       [DrawImage (demoImage 500 400) 0 0,
        FillRect ''#000000'' 1 2 2 340 106,
        FillText ''#ffffff'' 1 (Font True 90 ''sans-serif'') ''top'' ''start''
          ''before'' 10 10]"
    by (simp add: drawLabel_ops drawImage_def freshCtx_def defaultState_def initialState_def
        clampedX_def clampedY_def textWidth_def textHeight_def labelFont_def demoMeasure_def)
  have size: "naturalWidth (demoElement 500 400) = 500" "naturalHeight (demoElement 500 400) = 400"
    by (simp_all add: demoElement_def)
  show "ops (getContext (drawPreview demoMeasure (Some (demoElement 500 400))
            (label1 initialState))) =
       [DrawImageScaled (demoElement 500 400) 0 0 500 400,
        FillRect ''#000000'' 0 2 2 340 106,
        FillText ''#ffffff'' 1 (Font False 90 ''OperatorMonoBold'') ''alphabetic'' ''start''
          ''before'' 10 82]"
    by (simp add: drawPreview_def scale_500_400 size Let_def initialState_def demoMeasure_def
        drawImageScaled_def freshCtx_def defaultState_def save_def restore_def setFont_def
        setTextBaseline_def measureText_def assignGlobalAlpha_def setGlobalAlpha_def
        setFillStyle_def fillRect_def fillText_def round_js_def
        add_js_def sub_js_def mul_js_def fl_values)
qed

text \<open>
  C8: for every font size and face, measuring the empty text gives a footprint of size
  zero: width 0, ascent 0 and descent 0. The measurement is that of the rendering surface
  as the spec has it. The code hands the text of a label to it unchanged, so with it the
  width read by \<open>drawLabel\<close> for an empty text is 0, and the bounds of \<open>getLabelBounds\<close> of
  \<open>client/app.ts\<close>, which reads width, ascent and descent, are the padding alone around the
  position of the label.
\<close>

theorem empty_text_footprint:
  "measureLabelFootprint m f b [] =
     \<lparr>width = 0, actualBoundingBoxAscent = 0, actualBoundingBoxDescent = 0\<rparr>
   \<and> measureText (measureLabelFootprint m) c [] =
     \<lparr>width = 0, actualBoundingBoxAscent = 0, actualBoundingBoxDescent = 0\<rparr>
   \<and> textWidth (measureLabelFootprint m) (label\<lparr>text := []\<rparr>) = 0
   \<and> getLabelBounds (measureLabelFootprint m) (label\<lparr>text := []\<rparr>) s =
       \<lparr>left = x label * s - padding label * s, top_edge = y label * s - padding label * s,
        right = x label * s + padding label * s, bottom = y label * s + padding label * s\<rparr>"
  by (simp add: measureLabelFootprint_def measureText_def textWidth_def getLabelBounds_def
      Let_def)

subsection \<open>The handler\<close>

lemma showNat_100: "showNat 100 = ''100''"
  by (simp add: showNat.simps digitChar_def)

lemma showNat_150: "showNat 150 = ''150''"
  by (simp add: showNat.simps digitChar_def)

lemma showNat_200: "showNat 200 = ''200''"
  by (simp add: showNat.simps digitChar_def)

text \<open>
  C2: for two decoded images and two parsed labels, the handler answers with the
  size-mismatch error exactly when the widths or the heights differ; the message carries
  the four dimensions, and no canvas has been created or drawn on.
\<close>

theorem generate_dimension_mismatch:
  assumes "files_image1 req = Some f1" and "files_image2 req = Some f2"
    and "body_label1 req = Some l1" and "body_label2 req = Some l2"
    and "decoded f1 = Some img1" and "decoded f2 = Some img2"
  shows "(generate m req =
           (Json 400
              (''Images must be the same size. Got '' @ showNat (imgWidth img1) @ ''x'' @
               showNat (imgHeight img1) @ '' and '' @ showNat (imgWidth img2) @ ''x'' @
               showNat (imgHeight img2)), []))
         = (imgWidth img1 \<noteq> imgWidth img2 \<or> imgHeight img1 \<noteq> imgHeight img2)"
  using assms by (simp add: generate_def mismatchMessage_def Let_def)

theorem generate_dimension_mismatch_witness:
  "generate demoMeasure
     (demoRequest (demoImage 100 100) (demoImage 200 150)
        (demoLabel ''before'' 10 10 20 4) (demoLabel ''after'' 10 10 20 4))
   = (Json 400 ''Images must be the same size. Got 100x100 and 200x150'', [])"
  using generate_dimension_mismatch
    [of "demoRequest (demoImage 100 100) (demoImage 200 150)
           (demoLabel ''before'' 10 10 20 4) (demoLabel ''after'' 10 10 20 4)"
        "Upload (Some (demoImage 100 100))" "Upload (Some (demoImage 200 150))"
        "demoLabel ''before'' 10 10 20 4" "demoLabel ''after'' 10 10 20 4"
        "demoImage 100 100" "demoImage 200 150" demoMeasure]
  by (simp add: demoRequest_def demoImage_def showNat_100 showNat_150 showNat_200)

text \<open>Whatever the request, a response that is the size-mismatch error comes with no canvas.\<close>

lemma mismatch_no_output:
  "fst (generate m req) = Json 400 (mismatchMessage i1 i2) \<Longrightarrow> snd (generate m req) = []"
  by (auto simp: generate_def Let_def split: option.splits if_splits)




text \<open>
  C7: a label with a negative font size or a negative padding is reported as an invalid
  label configuration before anything is rendered. On the code a label of font size -20
  and padding -4 is rendered: both frames are drawn, the first with a rectangle of
  negative width and height.
\<close>

theorem generate_renders_negative_geometry:
  "fontSize (demoLabel ''before'' 10 10 (- 20) (- 4)) < 0
   \<and> padding (demoLabel ''before'' 10 10 (- 20) (- 4)) < 0
   \<and> map ops (snd (generate demoMeasure
        (demoRequest (demoImage 100 100) (demoImage 100 100)
           (demoLabel ''before'' 10 10 (- 20) (- 4)) (demoLabel ''after'' 10 10 20 4)))) =
       [[DrawImage (demoImage 100 100) 0 0,
         FillRect ''#000000'' 1 14 14 (- 80) (- 28),
         FillText ''#ffffff'' 1 (Font True (- 20) ''sans-serif'') ''top'' ''start''
           ''before'' 10 10],
        [DrawImage (demoImage 100 100) 0 0,
         FillRect ''#000000'' 1 6 6 68 28,
         FillText ''#ffffff'' 1 (Font True 20 ''sans-serif'') ''top'' ''start''
           ''after'' 10 10]]"
  by (simp add: generate_def demoRequest_def Let_def drawLabel_ops drawImage_def freshCtx_def
      defaultState_def clampedX_def clampedY_def textWidth_def textHeight_def labelFont_def
      demoMeasure_def demoLabel_def demoImage_def)

text \<open>
  C7 as amended: for a request with both files, the handler answers with status 400 and
  \<open>Invalid label configuration\<close>, having decoded and drawn nothing, exactly when one of the
  two labels does not parse; no field of a label that parses is checked.
\<close>

theorem generate_invalid_label:
  assumes "files_image1 req = Some f1" and "files_image2 req = Some f2"
  shows "(generate m req = (Json 400 ''Invalid label configuration'', []))
         = (body_label1 req = None \<or> body_label2 req = None)"
  using assms
  by (auto simp: generate_def Let_def mismatchMessage_def split: option.splits)

theorem generate_invalid_label_witness:
  "generate demoMeasure
     ((demoRequest (demoImage 100 100) (demoImage 100 100)
         (demoLabel ''before'' 10 10 20 4) (demoLabel ''after'' 10 10 20 4))
      \<lparr>body_label2 := None\<rparr>)
   = (Json 400 ''Invalid label configuration'', [])"
  using generate_invalid_label
    [of "(demoRequest (demoImage 100 100) (demoImage 100 100)
           (demoLabel ''before'' 10 10 20 4) (demoLabel ''after'' 10 10 20 4))
         \<lparr>body_label2 := None\<rparr>"
        "Upload (Some (demoImage 100 100))" "Upload (Some (demoImage 100 100))" demoMeasure]
  by (simp add: demoRequest_def)

section \<open>Properties of the client\<close>

subsection \<open>Preview and final render\<close>

text \<open>
  Where the clamp of the server changes neither coordinate and the width of the text is
  linear in the font size, the bounds of the client of \<open>unnamed/part_002\<close> at a scale are
  the rectangle of the server times the scale.
\<close>

lemma preview_agrees_when_unclamped:
  assumes "width (m (Font True (fontSize label * s) ''sans-serif'') b (text label)) =
             textWidth m label * s"
    and "0 \<le> x label" and "x label \<le> cw - textWidth m label - padding label * 2"
    and "0 \<le> y label" and "y label \<le> ch - textHeight label - padding label * 2"
  shows "map (\<lambda>r. \<lparr>left = left r * s, top_edge = top_edge r * s, right = right r * s,
                    bottom = bottom r * s\<rparr>)
           (filledRects (drawLabel m freshCtx label cw ch))
         = [getLabelBounds_part_002 m b label s]"
  using assms
  by (simp add: filledRects_drawLabel clampedX_def clampedY_def getLabelBounds_part_002_def
      Let_def textHeight_def algebra_simps)

text \<open>
  C4: preview and final render use the same formula, the clamp included, so that their
  bounds differ by the factor of the scale only. On the code the preview never clamps: for
  the label \<open>before\<close> at (95, 95) with font size 20 and padding 4 on an image of 100 by
  100, with a text measurement linear in the font size, the server fills the rectangle from
  (16, 68) to (96, 96), while the bounds of the preview are (91, 91) to (171, 119) at scale
  1 and (45.5, 45.5) to (85.5, 59.5) at scale 1/2.
\<close>

theorem preview_never_clamps:
  "filledRects (drawLabel demoMeasure freshCtx (demoLabel ''before'' 95 95 20 4) 100 100) =
     [\<lparr>left = 16, top_edge = 68, right = 96, bottom = 96\<rparr>]
   \<and> getLabelBounds demoMeasure (demoLabel ''before'' 95 95 20 4) 1 =
     \<lparr>left = 91, top_edge = 91, right = 171, bottom = 119\<rparr>
   \<and> getLabelBounds demoMeasure (demoLabel ''before'' 95 95 20 4) (1 / 2) =
     \<lparr>left = 91 / 2, top_edge = 91 / 2, right = 171 / 2, bottom = 119 / 2\<rparr>"
  by (simp add: filledRects_drawLabel clampedX_def clampedY_def textWidth_def textHeight_def
      demoLabel_def demoMeasure_def labelFont_def getLabelBounds_def Let_def)

text \<open>
  The size of the preview canvas is rounded from a product of doubles: an image of 564 by
  1504 pixels gets a canvas of 157 by 420.
\<close>

lemma drawPreview_size_564_1504:
  "canvasWidth (drawPreview m (Some (demoElement 564 1504)) label) = 157
   \<and> canvasHeight (drawPreview m (Some (demoElement 564 1504)) label) = 420"
proof -
  have size: "naturalWidth (demoElement 564 1504) = 564"
    "naturalHeight (demoElement 564 1504) = 1504"
    by (simp_all add: demoElement_def)
  have w: "round_js (mul_js 564 (5030616605041511 / 18014398509481984)) = 157"
    by (simp add: round_js_def fl_eval)
  have h: "round_js (mul_js 1504 (5030616605041511 / 18014398509481984)) = 420"
    by (simp add: round_js_def fl_eval)
  show ?thesis
    by (simp add: drawPreview_def scale_564_1504 size w h Let_def)
qed

lemma drawPreview_placeholder_size:
  "canvasWidth (drawPreview m None label) = 560 \<and> canvasHeight (drawPreview m None label) = 252"
  by (simp add: drawPreview_def Let_def round_js_def PREVIEW_MAX_WIDTH_def
      PREVIEW_MAX_HEIGHT_def fl_eval)

subsection \<open>Dragging\<close>








text \<open>
  C10: in \<open>client/app.ts\<close> a move during a drag over either canvas writes the same new
  position into both labels: afterwards \<open>label1\<close> and \<open>label2\<close> have the same \<open>x\<close> and the
  same \<open>y\<close>, the position computed from the pointer and the offsets of the drag session.
\<close>

theorem drag_move_writes_both_labels:
  assumes "getImg w st = Some im" and "activeDrag w st = Some d"
  shows "x (label1 (fst (mousemove m w rect e st))) = x (label2 (fst (mousemove m w rect e st)))
       \<and> y (label1 (fst (mousemove m w rect e st))) = y (label2 (fst (mousemove m w rect e st)))
       \<and> x (label1 (fst (mousemove m w rect e st)))
           = div_js (sub_js (sub_js (clientX e) (rect_left rect)) (offsetX d))
               (getPreviewScale im)
       \<and> y (label1 (fst (mousemove m w rect e st)))
           = div_js (sub_js (sub_js (clientY e) (rect_top rect)) (offsetY d))
               (getPreviewScale im)"
  using assms by (simp add: mousemove_def Let_def)

text \<open>
  A drag session of canvas 2 with offsets (8, 20), the pointer at (71, 62) and the scale
  0.42: both labels move to (150, 100).
\<close>

theorem drag_move_writes_both_labels_witness:
  "x (label1 (fst (mousemove demoMeasure W2 \<lparr>rect_left = 0, rect_top = 0\<rparr>
        \<lparr>clientX = 71, clientY = 62\<rparr>
        (demoState\<lparr>drag := Some \<lparr>which = W2, offsetX = 8, offsetY = 20\<rparr>\<rparr>)))) = 150
   \<and> x (label2 (fst (mousemove demoMeasure W2 \<lparr>rect_left = 0, rect_top = 0\<rparr>
        \<lparr>clientX = 71, clientY = 62\<rparr>
        (demoState\<lparr>drag := Some \<lparr>which = W2, offsetX = 8, offsetY = 20\<rparr>\<rparr>)))) = 150
   \<and> y (label1 (fst (mousemove demoMeasure W2 \<lparr>rect_left = 0, rect_top = 0\<rparr>
        \<lparr>clientX = 71, clientY = 62\<rparr>
        (demoState\<lparr>drag := Some \<lparr>which = W2, offsetX = 8, offsetY = 20\<rparr>\<rparr>)))) = 100
   \<and> y (label2 (fst (mousemove demoMeasure W2 \<lparr>rect_left = 0, rect_top = 0\<rparr>
        \<lparr>clientX = 71, clientY = 62\<rparr>
        (demoState\<lparr>drag := Some \<lparr>which = W2, offsetX = 8, offsetY = 20\<rparr>\<rparr>)))) = 100"
proof -
  have im: "getImg W2 (demoState\<lparr>drag := Some \<lparr>which = W2, offsetX = 8, offsetY = 20\<rparr>\<rparr>)
              = Some (demoElement 1000 1000)"
    by (simp add: getImg_def demoState_def)
  have d: "activeDrag W2 (demoState\<lparr>drag := Some \<lparr>which = W2, offsetX = 8, offsetY = 20\<rparr>\<rparr>)
              = Some \<lparr>which = W2, offsetX = 8, offsetY = 20\<rparr>"
    by (simp add: activeDrag_def)
  have v: "div_js (sub_js (sub_js 71 0) 8) (7566047373982433 / 18014398509481984) = 150"
    "div_js (sub_js (sub_js 62 0) 20) (7566047373982433 / 18014398509481984) = 100"
    by (simp_all add: fl_eval)
  show ?thesis
    using drag_move_writes_both_labels [OF im d, of demoMeasure "\<lparr>rect_left = 0, rect_top = 0\<rparr>"
        "\<lparr>clientX = 71, clientY = 62\<rparr>"]
    by (simp add: scale_1000 v)
qed

end
